theory Spec2Isabelle
  imports Main
begin

section \<open>The notification coordinator of \<open>ConnectApi\<close> (src/connect/connectApi.ts)\<close>

text \<open>
  The class \<open>ConnectApi\<close> keeps two JavaScript objects used as dictionaries
  (\<open>_asyncFns\<close>, \<open>_notifyFns\<close>), the flag \<open>handleNotifications\<close> and the pending long-poll
  request \<open>_pollRequest\<close>.  A dictionary is a map from strings that holds the object's
  own properties; what a read finds when there is no own property is \<open>js_get\<close> below.
  Functions stored in the dictionaries are opaque: a callback is an identifier, and calling
  it is recorded in the list of effects that a method returns.  Callbacks are taken not to
  call back into the coordinator and not to throw while a batch is dispatched.
\<close>

subsection \<open>Data\<close>

type_synonym callback = nat

text \<open>\<open>new SDKError(message, innerError, details, code)\<close>; the message of an error built
  by \<open>notify\<close> is the remote error string or, failing that, the numeric status.\<close>

record SDKError =
  message :: "string + int"
  innerError :: "string option"
  details :: "string option"
  code :: int

text \<open>One element of \<open>data.notifications\<close>.\<close>

record NotificationData =
  ep :: string
  path :: string
  payload :: "string option"
  ct :: "string option"

text \<open>One element of \<open>data["async-responses"]\<close>; the fields \<open>id\<close>, \<open>payload\<close> and \<open>ct\<close>
  of the source carry the prefix \<open>async_\<close> here.\<close>

record AsyncResponse =
  async_id :: string
  status :: int
  error :: "string option"
  async_payload :: "string option"
  async_ct :: "string option"

text \<open>The batch handed to \<open>notify\<close>; an absent field is \<open>None\<close>. The keys \<open>reg-updates\<close>,
  \<open>de-registrations\<close>, \<open>registrations-expired\<close> and \<open>async-responses\<close> are written with
  underscores. \<open>'d\<close> is the raw device record of the wire format.\<close>

record 'd NotificationObject =
  notifications :: "NotificationData list option"
  registrations :: "'d list option"
  reg_updates :: "'d list option"
  de_registrations :: "string list option"
  registrations_expired :: "string list option"
  async_responses :: "AsyncResponse list option"

record ConnectApi =
  asyncFns :: "string \<rightharpoonup> callback"
  notifyFns :: "string \<rightharpoonup> callback"
  handleNotifications :: bool
  pollRequest :: "nat option"

text \<open>What a dispatch does to the outside: calls of stored functions and emitted events.
  \<open>'v\<close> is the type of the JavaScript values that the helpers absent from the sources
  build: a payload decoded by \<open>decodeBase64\<close>, a device event built by
  \<open>DeviceEventAdapter.map\<close>.\<close>

datatype 'v effect =
    NotifyFn callback "'v option"
  | Emit_NOTIFICATION string string "'v option"
  | Emit_REGISTRATION 'v
  | Emit_REREGISTRATION 'v
  | Emit_DEREGISTRATION string
  | Emit_EXPIRED string
  | AsyncFn callback "SDKError option" "'v option"

subsection \<open>Plain objects used as dictionaries\<close>

text \<open>
  \<open>_asyncFns\<close> and \<open>_notifyFns\<close> are created as \<open>{}\<close> and read with \<open>obj[key]\<close>, so a key
  that is not an own property is looked up in \<open>Object.prototype\<close>: the key \<open>__proto__\<close> yields
  the prototype object itself, which is truthy and cannot be called; the name of a method
  of \<open>Object.prototype\<close> yields that method; any other key yields \<open>undefined\<close>.
\<close>

datatype property = Own callback | Inherited_object | Inherited_method | Undefined

definition Object_prototype_methods :: "string list" where
  "Object_prototype_methods =
     [''constructor'', ''__defineGetter__'', ''__defineSetter__'', ''hasOwnProperty'',
      ''__lookupGetter__'', ''__lookupSetter__'', ''isPrototypeOf'', ''propertyIsEnumerable'',
      ''toString'', ''valueOf'', ''toLocaleString'']"

definition js_get :: "(string \<rightharpoonup> callback) \<Rightarrow> string \<Rightarrow> property" where
  "js_get obj k =
     (case obj k of
        Some fn \<Rightarrow> Own fn
      | None \<Rightarrow>
          if k = ''__proto__'' then Inherited_object
          else if k \<in> set Object_prototype_methods then Inherited_method
          else Undefined)"

text \<open>
  \<open>obj[key] = fn\<close> stores an own property, except for the key \<open>__proto__\<close>: there it
  replaces the prototype of the object by \<open>fn\<close> and stores nothing.  The state keeps no
  prototype (it is \<open>Object.prototype\<close> throughout), so the model of a method ends with
  \<open>None\<close> at such an assignment.
\<close>

definition js_set :: "(string \<rightharpoonup> callback) \<Rightarrow> string \<Rightarrow> callback \<Rightarrow> (string \<rightharpoonup> callback) option" where
  "js_set obj k fn = (if k = ''__proto__'' then None else Some (obj(k \<mapsto> fn)))"

text \<open>
  A call either returns or throws a \<open>TypeError\<close>.  Calling the inherited object throws.
  What the call of an inherited method does depends on the method and on the arguments
  (module code is strict, so the call has no receiver: \<open>Object(body)\<close> returns,
  \<open>valueOf()\<close> throws); the methods are not part of the sources, so this is the parameter
  \<open>builtin\<close> of \<open>notify\<close>: from the name of the method and the arguments to the completion.
  An inherited method has no effect on the coordinator.
\<close>

datatype completion = Returned | Threw

datatype 'v arguments = Call1 "'v option" | Call2 "SDKError option" "'v option"

subsection \<open>\<open>normalizePath\<close> and \<open>notify\<close>\<close>

definition normalizePath :: "string \<Rightarrow> string" where
  "normalizePath p = (if p \<noteq> [] \<and> hd p = CHR ''/'' then tl p else p)"

text \<open>\<open>x.payload ? decodeBase64(x.payload, x.ct) : null\<close>: an absent and an empty payload
  are both falsy. \<open>decodeBase64\<close> (src/common/functions.ts) is a parameter.\<close>

definition decodeBody :: "(string \<Rightarrow> string option \<Rightarrow> 'v) \<Rightarrow> string option \<Rightarrow> string option \<Rightarrow> 'v option" where
  "decodeBody decodeBase64 pl c =
     (case pl of
        None \<Rightarrow> None
      | Some s \<Rightarrow> if s \<noteq> [] then Some (decodeBase64 s c) else None)"

text \<open>The body of \<open>data.notifications.forEach\<close>: \<open>if (fn) fn(body)\<close>, then the event.  A
  throw in \<open>fn(body)\<close> leaves the function before the event is emitted.\<close>

definition notify_notification ::
  "(string \<Rightarrow> 'v arguments \<Rightarrow> completion) \<Rightarrow> (string \<Rightarrow> string option \<Rightarrow> 'v) \<Rightarrow> ConnectApi
     \<Rightarrow> NotificationData \<Rightarrow> 'v effect list \<times> completion" where
  "notify_notification builtin decodeBase64 this notification =
     (let body = decodeBody decodeBase64 (payload notification) (ct notification);
          key = ep notification @ path notification;
          event = Emit_NOTIFICATION (ep notification) (path notification) body
      in case js_get (notifyFns this) key of
           Undefined \<Rightarrow> ([event], Returned)
         | Own fn \<Rightarrow> ([NotifyFn fn body, event], Returned)
         | Inherited_object \<Rightarrow> ([], Threw)
         | Inherited_method \<Rightarrow>
             (case builtin key (Call1 body) of
                Returned \<Rightarrow> ([event], Returned)
              | Threw \<Rightarrow> ([], Threw)))"

text \<open>\<open>forEach\<close> over the resource notifications: a throw ends the loop.\<close>

fun forEach_notification ::
  "(string \<Rightarrow> 'v arguments \<Rightarrow> completion) \<Rightarrow> (string \<Rightarrow> string option \<Rightarrow> 'v) \<Rightarrow> ConnectApi
     \<Rightarrow> NotificationData list \<Rightarrow> 'v effect list \<times> completion" where
  "forEach_notification builtin decodeBase64 this [] = ([], Returned)"
| "forEach_notification builtin decodeBase64 this (notification # rest) =
     (case notify_notification builtin decodeBase64 this notification of
        (es1, Threw) \<Rightarrow> (es1, Threw)
      | (es1, Returned) \<Rightarrow>
          (case forEach_notification builtin decodeBase64 this rest of
             (es2, c) \<Rightarrow> (es1 @ es2, c)))"

text \<open>\<open>response.error || response.status\<close>.\<close>

definition error_or_status :: "AsyncResponse \<Rightarrow> string + int" where
  "error_or_status response =
     (case error response of
        Some s \<Rightarrow> if s \<noteq> [] then Inl s else Inr (status response)
      | None \<Rightarrow> Inr (status response))"

text \<open>The arguments \<open>(error, null)\<close> or \<open>(null, body)\<close> that the body of
  \<open>data["async-responses"].forEach\<close> calls \<open>fn\<close> with.\<close>

definition async_error :: "AsyncResponse \<Rightarrow> SDKError option" where
  "async_error response =
     (if status response \<ge> 400
      then Some \<lparr>message = error_or_status response, innerError = None,
                 details = None, code = status response\<rparr>
      else None)"

definition async_body :: "(string \<Rightarrow> string option \<Rightarrow> 'v) \<Rightarrow> AsyncResponse \<Rightarrow> 'v option" where
  "async_body decodeBase64 response =
     (if status response \<ge> 400 then None
      else decodeBody decodeBase64 (async_payload response) (async_ct response))"

text \<open>The body of \<open>data["async-responses"].forEach\<close>: it is the only part of \<open>notify\<close>
  that writes to the object.  \<open>delete\<close> removes an own property and does nothing for an
  inherited one; it is not reached when the call throws.\<close>

definition notify_async_response ::
  "(string \<Rightarrow> 'v arguments \<Rightarrow> completion) \<Rightarrow> (string \<Rightarrow> string option \<Rightarrow> 'v) \<Rightarrow> AsyncResponse
     \<Rightarrow> ConnectApi \<Rightarrow> ConnectApi \<times> 'v effect list \<times> completion" where
  "notify_async_response builtin decodeBase64 response this =
     (let asyncID = async_id response;
          err = async_error response;
          body = async_body decodeBase64 response
      in case js_get (asyncFns this) asyncID of
           Undefined \<Rightarrow> (this, [], Returned)
         | Own fn \<Rightarrow>
             (this\<lparr>asyncFns := (asyncFns this)(asyncID := None)\<rparr>, [AsyncFn fn err body], Returned)
         | Inherited_object \<Rightarrow> (this, [], Threw)
         | Inherited_method \<Rightarrow> (this, [], builtin asyncID (Call2 err body)))"

fun forEach_async ::
  "(string \<Rightarrow> 'v arguments \<Rightarrow> completion) \<Rightarrow> (string \<Rightarrow> string option \<Rightarrow> 'v) \<Rightarrow> AsyncResponse list
     \<Rightarrow> ConnectApi \<Rightarrow> ConnectApi \<times> 'v effect list \<times> completion" where
  "forEach_async builtin decodeBase64 [] this = (this, [], Returned)"
| "forEach_async builtin decodeBase64 (response # rest) this =
     (case notify_async_response builtin decodeBase64 response this of
        (this1, es1, Threw) \<Rightarrow> (this1, es1, Threw)
      | (this1, es1, Returned) \<Rightarrow>
          (case forEach_async builtin decodeBase64 rest this1 of
             (this2, es2, c) \<Rightarrow> (this2, es1 @ es2, c)))"

text \<open>\<open>if (data.field) data.field.forEach(...)\<close> over a field that may be absent.\<close>

definition present :: "'a list option \<Rightarrow> 'a list" where
  "present field = (case field of None \<Rightarrow> [] | Some xs \<Rightarrow> xs)"

text \<open>\<open>notify(data)\<close>: the new object, the effects in the order they happen, and whether
  the call returned or threw.  \<open>mapDevice\<close> stands for \<open>DeviceEventAdapter.map(device, this)\<close>.\<close>

definition notify ::
  "(string \<Rightarrow> 'v arguments \<Rightarrow> completion) \<Rightarrow> (string \<Rightarrow> string option \<Rightarrow> 'v) \<Rightarrow> ('d \<Rightarrow> 'v)
     \<Rightarrow> 'd NotificationObject option \<Rightarrow> ConnectApi \<Rightarrow> ConnectApi \<times> 'v effect list \<times> completion" where
  "notify builtin decodeBase64 mapDevice data this =
     (case data of
        None \<Rightarrow> (this, [], Returned)
      | Some d \<Rightarrow>
          (case forEach_notification builtin decodeBase64 this (present (notifications d)) of
             (es1, Threw) \<Rightarrow> (this, es1, Threw)
           | (es1, Returned) \<Rightarrow>
               (let es2 = map (\<lambda>device. Emit_REGISTRATION (mapDevice device)) (present (registrations d));
                    es3 = map (\<lambda>device. Emit_REREGISTRATION (mapDevice device)) (present (reg_updates d));
                    es4 = map Emit_DEREGISTRATION (present (de_registrations d));
                    es5 = map Emit_EXPIRED (present (registrations_expired d))
                in case forEach_async builtin decodeBase64 (present (async_responses d)) this of
                     (this', es6, c) \<Rightarrow> (this', es1 @ es2 @ es3 @ es4 @ es5 @ es6, c))))"

text \<open>The three parts of what \<open>notify\<close> returns.\<close>

definition object_of :: "ConnectApi \<times> 'v effect list \<times> completion \<Rightarrow> ConnectApi" where
  "object_of r = fst r"

definition effects_of :: "ConnectApi \<times> 'v effect list \<times> completion \<Rightarrow> 'v effect list" where
  "effects_of r = fst (snd r)"

definition completion_of :: "ConnectApi \<times> 'v effect list \<times> completion \<Rightarrow> completion" where
  "completion_of r = snd (snd r)"

text \<open>The position of an effect in the fixed processing order of one batch.\<close>

fun stage :: "'v effect \<Rightarrow> nat" where
  "stage (NotifyFn _ _) = 0"
| "stage (Emit_NOTIFICATION _ _ _) = 0"
| "stage (Emit_REGISTRATION _) = 1"
| "stage (Emit_REREGISTRATION _) = 2"
| "stage (Emit_DEREGISTRATION _) = 3"
| "stage (Emit_EXPIRED _) = 4"
| "stage (AsyncFn _ _ _) = 5"

text \<open>Whether an effect is a call of the correlator callback \<open>f\<close>, or of the
  subscription callback \<open>f\<close>.\<close>

fun is_AsyncFn_of :: "callback \<Rightarrow> 'v effect \<Rightarrow> bool" where
  "is_AsyncFn_of f (AsyncFn g _ _) = (f = g)"
| "is_AsyncFn_of f _ = False"

fun is_NotifyFn_of :: "callback \<Rightarrow> 'v effect \<Rightarrow> bool" where
  "is_NotifyFn_of f (NotifyFn g _) = (f = g)"
| "is_NotifyFn_of f _ = False"

subsection \<open>\<open>addResourceSubscription\<close>\<close>

text \<open>
  \<open>addResourceSubscription(deviceId, resourcePath, notifyFn, callback)\<close> normalises the
  path and hands two functions to \<open>apiWrapper\<close> (src/common/functions.ts, absent): the PUT
  request and the function that receives the request's \<open>data\<close> and the continuation
  \<open>done\<close>.  The definition is that second function after the normalisation; \<open>asyncID\<close> is
  \<open>data["async-response-id"]\<close>.  The result is the new object and what \<open>done\<close> is called
  with, if it is called: \<open>Inr v\<close> stands for \<open>done(null, v)\<close>.  It is \<open>None\<close> where an
  assignment replaces a prototype (\<open>js_set\<close>): the key of a subscription contains a \<open>/\<close>
  and never does, the async id \<open>__proto__\<close> does.
\<close>

definition addResourceSubscription ::
  "string \<Rightarrow> string \<Rightarrow> callback option \<Rightarrow> callback \<Rightarrow> string option \<Rightarrow> ConnectApi
     \<Rightarrow> (ConnectApi \<times> (SDKError + string option) option) option" where
  "addResourceSubscription deviceId resourcePath notifyFn done asyncID this =
     (let resourcePath' = normalizePath resourcePath;
          recorded = (case notifyFn of
                        Some fn \<Rightarrow>
                          map_option (\<lambda>fns. this\<lparr>notifyFns := fns\<rparr>)
                            (js_set (notifyFns this) (deviceId @ ''/'' @ resourcePath') fn)
                      | None \<Rightarrow> Some this)
      in case recorded of
           None \<Rightarrow> None
         | Some this1 \<Rightarrow>
             (case asyncID of
                Some a \<Rightarrow>
                  if handleNotifications this1 \<and> a \<noteq> []
                  then map_option (\<lambda>fns. (this1\<lparr>asyncFns := fns\<rparr>, None))
                         (js_set (asyncFns this1) a done)
                  else Some (this1, Some (Inr asyncID))
              | None \<Rightarrow> Some (this1, Some (Inr asyncID))))"

subsection \<open>The webhook registry\<close>

text \<open>
  \<open>asyncStyle\<close> (src/common/functions.ts) is not among the sources. It is taken to run
  the body it is given with a continuation \<open>done\<close> and to settle the caller's promise or
  callback with what \<open>done\<close> receives.  A method wrapped in it is therefore the function from the
  transport's answer \<open>(error, data)\<close> to that outcome: \<open>Inl e\<close> for \<open>done(e)\<close>, \<open>Inr v\<close> for
  \<open>done(null, v)\<close>.  \<open>WebhookAdapter.map\<close> is a parameter.
\<close>

definition getWebhook :: "('w \<Rightarrow> 'h) \<Rightarrow> SDKError option \<Rightarrow> 'w \<Rightarrow> SDKError + 'h option" where
  "getWebhook mapWebhook err data =
     (case err of
        Some e \<Rightarrow> if code e = 404 then Inr None else Inl e
      | None \<Rightarrow> Inr (Some (mapWebhook data)))"

text \<open>The callback that \<open>deleteWebhook\<close> gives to \<open>v2NotificationCallbackDelete\<close> takes no
  argument: \<open>() => { done(null, null); }\<close>.\<close>

definition deleteWebhook :: "SDKError option \<Rightarrow> 'w option \<Rightarrow> SDKError + unit option" where
  "deleteWebhook err data = Inr None"

subsection \<open>The pull loop\<close>

text \<open>
  \<open>startNotifications\<close> and \<open>stopNotifications\<close> issue transport requests and leave
  continuations behind; the JavaScript event loop runs a continuation when the request
  completes or the timer fires.  The run-time state is the object, the continuations that
  are waiting, the number of poll requests issued so far (a poll request is named by its
  number) and the log of what has been done.
\<close>

record NotificationOptions =
  interval :: "nat option"
  requestCallback :: "callback option"

datatype request =
    v2NotificationPullGet
  | v2NotificationPullDelete
  | v2NotificationCallbackDelete

datatype task =
    deleteWebhook_callback NotificationOptions
  | PullDelete_callback
  | PullGet_callback nat NotificationOptions
  | Timer NotificationOptions

datatype 'v action =
    Request request
  | Abort nat
  | Dispatch "'v effect"
  | RequestCallback callback "SDKError option" "AsyncResponse list"
  | SetTimeout nat
  | Throw_TypeError
  | Done_startNotifications
  | Done_stopNotifications

record 'v runtime =
  api :: ConnectApi
  tasks :: "task list"
  issued :: nat
  log :: "'v action list"

text \<open>\<open>function poll()\<close> inside \<open>startNotifications\<close>: issue the request, keep it in
  \<open>_pollRequest\<close>.\<close>

definition poll :: "NotificationOptions \<Rightarrow> 'v runtime \<Rightarrow> 'v runtime" where
  "poll options rt =
     rt\<lparr>api := (api rt)\<lparr>pollRequest := Some (issued rt)\<rparr>,
        tasks := tasks rt @ [PullGet_callback (issued rt) options],
        issued := Suc (issued rt),
        log := log rt @ [Request v2NotificationPullGet]\<rparr>"

text \<open>\<open>interval || 500\<close>.\<close>

definition delay :: "NotificationOptions \<Rightarrow> nat" where
  "delay options = (case interval options of Some n \<Rightarrow> if n \<noteq> 0 then n else 500 | None \<Rightarrow> 500)"

text \<open>The callback of the poll request. A throw in \<open>notify\<close> ends the callback; so does
  reading \<open>data["async-responses"]\<close> of a null \<open>data\<close>, which is read only when
  \<open>requestCallback\<close> is set.\<close>

definition poll_callback ::
  "(string \<Rightarrow> 'v arguments \<Rightarrow> completion) \<Rightarrow> (string \<Rightarrow> string option \<Rightarrow> 'v) \<Rightarrow> ('d \<Rightarrow> 'v)
     \<Rightarrow> NotificationOptions \<Rightarrow> SDKError option
     \<Rightarrow> 'd NotificationObject option \<Rightarrow> 'v runtime \<Rightarrow> 'v runtime" where
  "poll_callback builtin decodeBase64 mapDevice options err data rt =
     (if \<not> handleNotifications (api rt) then rt
      else
        case notify builtin decodeBase64 mapDevice data (api rt) of
          (this1, es, Threw) \<Rightarrow>
            rt\<lparr>api := this1, log := log rt @ map Dispatch es @ [Throw_TypeError]\<rparr>
        | (this1, es, Returned) \<Rightarrow>
            (let rt1 = rt\<lparr>api := this1, log := log rt @ map Dispatch es\<rparr>
             in case (requestCallback options, data) of
                  (Some cb, None) \<Rightarrow> rt1\<lparr>log := log rt1 @ [Throw_TypeError]\<rparr>
                | _ \<Rightarrow>
                  (let rt2 = (case (requestCallback options, Option.bind data async_responses) of
                                (Some cb, Some rs) \<Rightarrow> rt1\<lparr>log := log rt1 @ [RequestCallback cb err rs]\<rparr>
                              | _ \<Rightarrow> rt1)
                   in if err \<noteq> None
                      then rt2\<lparr>api := (api rt2)\<lparr>handleNotifications := False\<rparr>\<rparr>
                      else rt2\<lparr>tasks := tasks rt2 @ [Timer options],
                               log := log rt2 @ [SetTimeout (delay options)]\<rparr>)))"

text \<open>\<open>startNotifications(options)\<close>: \<open>this.deleteWebhook(callback)\<close> issues the request and
  waits.\<close>

definition startNotifications :: "NotificationOptions \<Rightarrow> 'v runtime \<Rightarrow> 'v runtime" where
  "startNotifications options rt =
     rt\<lparr>tasks := tasks rt @ [deleteWebhook_callback options],
        log := log rt @ [Request v2NotificationCallbackDelete]\<rparr>"

text \<open>The function given to \<open>this.deleteWebhook\<close>; \<open>deleteWebhook\<close> calls it with
  \<open>(null, null)\<close> whatever the transport answered, and it reads no argument.\<close>

definition startNotifications_callback :: "NotificationOptions \<Rightarrow> 'v runtime \<Rightarrow> 'v runtime" where
  "startNotifications_callback options rt =
     (let rt1 = poll options rt
      in rt1\<lparr>api := (api rt1)\<lparr>handleNotifications := True\<rparr>,
             log := log rt1 @ [Done_startNotifications]\<rparr>)"

definition stopNotifications :: "'v runtime \<Rightarrow> 'v runtime" where
  "stopNotifications rt =
     rt\<lparr>tasks := tasks rt @ [PullDelete_callback],
        log := log rt @ [Request v2NotificationPullDelete]\<rparr>"

fun is_PullGet_callback :: "nat \<Rightarrow> task \<Rightarrow> bool" where
  "is_PullGet_callback n (PullGet_callback m _) = (n = m)"
| "is_PullGet_callback n _ = False"

text \<open>The callback of \<open>v2NotificationPullDelete\<close> in \<open>stopNotifications\<close>. An aborted
  request never calls back, so \<open>abort()\<close> removes the request's waiting callback; on a
  request that has completed it does nothing.\<close>

definition stopNotifications_callback :: "'v runtime \<Rightarrow> 'v runtime" where
  "stopNotifications_callback rt =
     (let rt1 = (case pollRequest (api rt) of
                   Some n \<Rightarrow> rt\<lparr>api := (api rt)\<lparr>pollRequest := None\<rparr>,
                                tasks := filter (\<lambda>t. \<not> is_PullGet_callback n t) (tasks rt),
                                log := log rt @ [Abort n]\<rparr>
                 | None \<Rightarrow> rt)
      in rt1\<lparr>api := (api rt1)\<lparr>handleNotifications := False\<rparr>,
             log := log rt1 @ [Done_stopNotifications]\<rparr>)"

text \<open>What reaches the object: a call of one of the two methods, or the event loop running
  a waiting continuation with the transport's answer.\<close>

datatype 'd event =
    Call_startNotifications NotificationOptions
  | Call_stopNotifications
  | Complete task "SDKError option" "'d NotificationObject option"

fun run_task ::
  "(string \<Rightarrow> 'v arguments \<Rightarrow> completion) \<Rightarrow> (string \<Rightarrow> string option \<Rightarrow> 'v)
     \<Rightarrow> ('d \<Rightarrow> 'v) \<Rightarrow> task \<Rightarrow> SDKError option
     \<Rightarrow> 'd NotificationObject option \<Rightarrow> 'v runtime \<Rightarrow> 'v runtime" where
  "run_task builtin decodeBase64 mapDevice (deleteWebhook_callback options) err data rt =
     startNotifications_callback options rt"
| "run_task builtin decodeBase64 mapDevice PullDelete_callback err data rt =
     stopNotifications_callback rt"
| "run_task builtin decodeBase64 mapDevice (PullGet_callback n options) err data rt =
     poll_callback builtin decodeBase64 mapDevice options err data rt"
| "run_task builtin decodeBase64 mapDevice (Timer options) err data rt =
     poll options rt"

definition step ::
  "(string \<Rightarrow> 'v arguments \<Rightarrow> completion) \<Rightarrow> (string \<Rightarrow> string option \<Rightarrow> 'v)
     \<Rightarrow> ('d \<Rightarrow> 'v) \<Rightarrow> 'd event \<Rightarrow> 'v runtime \<Rightarrow> 'v runtime option" where
  "step builtin decodeBase64 mapDevice ev rt =
     (case ev of
        Call_startNotifications options \<Rightarrow> Some (startNotifications options rt)
      | Call_stopNotifications \<Rightarrow> Some (stopNotifications rt)
      | Complete t err data \<Rightarrow>
          if t \<in> set (tasks rt)
          then Some (run_task builtin decodeBase64 mapDevice t err data (rt\<lparr>tasks := remove1 t (tasks rt)\<rparr>))
          else None)"

fun exec ::
  "(string \<Rightarrow> 'v arguments \<Rightarrow> completion) \<Rightarrow> (string \<Rightarrow> string option \<Rightarrow> 'v)
     \<Rightarrow> ('d \<Rightarrow> 'v) \<Rightarrow> 'd event list \<Rightarrow> 'v runtime \<Rightarrow> 'v runtime option" where
  "exec builtin decodeBase64 mapDevice [] rt = Some rt"
| "exec builtin decodeBase64 mapDevice (ev # evs) rt =
     (case step builtin decodeBase64 mapDevice ev rt of
        None \<Rightarrow> None
      | Some rt' \<Rightarrow> exec builtin decodeBase64 mapDevice evs rt')"

text \<open>The transport requests of a log, in the order they were issued.\<close>

fun requests_of :: "'v action list \<Rightarrow> request list" where
  "requests_of [] = []"
| "requests_of (Request r # as) = r # requests_of as"
| "requests_of (_ # as) = requests_of as"

text \<open>The transport requests issued in a run of the event loop; none when an event of the
  run could not happen.\<close>

definition requests_issued :: "'v runtime option \<Rightarrow> request list" where
  "requests_issued r = (case r of None \<Rightarrow> [] | Some rt \<Rightarrow> requests_of (log rt))"

subsection \<open>Concrete values\<close>

text \<open>A new object: both dictionaries empty, \<open>handleNotifications\<close> undefined (falsy),
  no poll request.\<close>

definition new_ConnectApi :: ConnectApi where
  "new_ConnectApi = \<lparr>asyncFns = Map.empty, notifyFns = Map.empty,
                      handleNotifications = False, pollRequest = None\<rparr>"

definition new_runtime :: "'v runtime" where
  "new_runtime = \<lparr>api = new_ConnectApi, tasks = [], issued = 0, log = []\<rparr>"

definition no_options :: NotificationOptions where
  "no_options = \<lparr>interval = None, requestCallback = None\<rparr>"

definition empty_batch :: "string NotificationObject" where
  "empty_batch = \<lparr>notifications = None, registrations = None, reg_updates = None,
                   de_registrations = None, registrations_expired = None,
                   async_responses = None\<rparr>"

text \<open>An object with one pending correlator entry and one subscription, a batch with one
  element of each kind (and a second answer to \<open>a1\<close>), and stand-ins for the absent
  helpers.\<close>

definition example_api :: ConnectApi where
  "example_api = \<lparr>asyncFns = [''a1'' \<mapsto> 7], notifyFns = [''dev1/3200/0/5500'' \<mapsto> 3],
                   handleNotifications = True, pollRequest = None\<rparr>"

definition not_found_response :: AsyncResponse where
  "not_found_response = \<lparr>async_id = ''a1'', status = 404, error = Some ''not found'',
                          async_payload = None, async_ct = None\<rparr>"

definition ok_response :: AsyncResponse where
  "ok_response = \<lparr>async_id = ''a1'', status = 200, error = None,
                   async_payload = Some ''NDI='', async_ct = None\<rparr>"

definition example_notification :: NotificationData where
  "example_notification = \<lparr>ep = ''dev1'', path = ''/3200/0/5500'',
                            payload = Some ''NDI='', ct = None\<rparr>"

definition example_batch :: "string NotificationObject" where
  "example_batch = \<lparr>notifications = Some [example_notification],
                     registrations = Some [''dev2''], reg_updates = Some [''dev3''],
                     de_registrations = Some [''dev4''], registrations_expired = Some [''dev4''],
                     async_responses = Some [not_found_response, ok_response]\<rparr>"

definition raw_payload :: "string \<Rightarrow> string option \<Rightarrow> string" where
  "raw_payload s c = s"

definition raw_device :: "string \<Rightarrow> string" where
  "raw_device d = d"

text \<open>The methods of \<open>Object.prototype\<close> called without a receiver, for the payloads of
  \<open>raw_payload\<close> (strings): \<open>Object(x)\<close> and \<open>toString()\<close> return; \<open>isPrototypeOf(x)\<close>
  returns unless \<open>x\<close> is an object, which the error of an async response is; the others
  throw when they convert the missing receiver to an object.\<close>

definition strict_builtin :: "string \<Rightarrow> string arguments \<Rightarrow> completion" where
  "strict_builtin name args =
     (if name = ''constructor'' \<or> name = ''toString'' then Returned
      else if name = ''isPrototypeOf''
      then (case args of
              Call1 b \<Rightarrow> Returned
            | Call2 None b \<Rightarrow> Returned
            | Call2 (Some e) b \<Rightarrow> Threw)
      else Threw)"

text \<open>Two resource notifications and an async response whose keys are not own
  properties of any dictionary: the slash-less path, and the key \<open>__proto__\<close>.\<close>

definition slashless_notification :: NotificationData where
  "slashless_notification = \<lparr>ep = ''dev1'', path = ''3200/0/5500'',
                              payload = Some ''NDI='', ct = None\<rparr>"

definition proto_notification :: NotificationData where
  "proto_notification = \<lparr>ep = ''__proto__'', path = [], payload = None, ct = None\<rparr>"

definition proto_response :: AsyncResponse where
  "proto_response = \<lparr>async_id = ''__proto__'', status = 200, error = None,
                      async_payload = None, async_ct = None\<rparr>"

text \<open>The new object after \<open>addResourceSubscription("dev1", "/3200/0/5500", 3)\<close>.\<close>

definition subscribed_api :: ConnectApi where
  "subscribed_api = new_ConnectApi\<lparr>notifyFns := [''dev1/3200/0/5500'' \<mapsto> 3]\<rparr>"

section \<open>Properties of \<open>notify\<close>\<close>

lemma result_parts [simp]:
  "object_of (a, b, c) = a" "effects_of (a, b, c) = b" "completion_of (a, b, c) = c"
  by (simp_all add: object_of_def effects_of_def completion_of_def)

subsection \<open>One resource notification\<close>

lemma notify_notification_Own:
  "notifyFns this (ep n @ path n) = Some fn \<Longrightarrow>
     notify_notification builtin decodeBase64 this n =
       ([NotifyFn fn (decodeBody decodeBase64 (payload n) (ct n)),
         Emit_NOTIFICATION (ep n) (path n) (decodeBody decodeBase64 (payload n) (ct n))], Returned)"
  by (simp add: notify_notification_def js_get_def Let_def)

lemma notify_notification_Returned:
  "snd (notify_notification builtin decodeBase64 this n) = Returned \<Longrightarrow>
     fst (notify_notification builtin decodeBase64 this n) =
       (case notifyFns this (ep n @ path n) of Some fn \<Rightarrow> [NotifyFn fn (decodeBody decodeBase64 (payload n) (ct n))] | None \<Rightarrow> [])
       @ [Emit_NOTIFICATION (ep n) (path n) (decodeBody decodeBase64 (payload n) (ct n))]"
proof (cases "notifyFns this (ep n @ path n)")
  case (Some fn)
  then show ?thesis by (simp add: notify_notification_Own)
next
  case None
  assume "snd (notify_notification builtin decodeBase64 this n) = Returned"
  with None show ?thesis
    by (auto simp: notify_notification_def js_get_def Let_def
          split: if_splits completion.splits)
qed

lemma stage_notify_notification:
  "e \<in> set (fst (notify_notification builtin decodeBase64 this n)) \<Longrightarrow> stage e = 0"
  by (auto simp: notify_notification_def js_get_def Let_def
        split: option.splits if_splits completion.splits)

lemma list_ex_notify_notification:
  "list_ex (is_NotifyFn_of f) (fst (notify_notification builtin decodeBase64 this n))
     \<longleftrightarrow> notifyFns this (ep n @ path n) = Some f"
  by (auto simp: notify_notification_def js_get_def Let_def
        split: option.splits if_splits completion.splits)

subsection \<open>The loop over the resource notifications\<close>

lemma forEach_notification_Cons:
  "forEach_notification builtin decodeBase64 this (n # ns) =
     (if snd (notify_notification builtin decodeBase64 this n) = Threw
      then (fst (notify_notification builtin decodeBase64 this n), Threw)
      else (fst (notify_notification builtin decodeBase64 this n)
              @ fst (forEach_notification builtin decodeBase64 this ns),
            snd (forEach_notification builtin decodeBase64 this ns)))"
  by (simp split: prod.splits completion.splits)

lemma stage_forEach_notification:
  "e \<in> set (fst (forEach_notification builtin decodeBase64 this ns)) \<Longrightarrow> stage e = 0"
proof (induction ns)
  case Nil
  then show ?case by simp
next
  case (Cons n ns)
  from Cons.prems
  have "e \<in> set (fst (notify_notification builtin decodeBase64 this n))
        \<or> e \<in> set (fst (forEach_notification builtin decodeBase64 this ns))"
    unfolding forEach_notification_Cons by (auto split: if_splits)
  then show ?case
    using stage_notify_notification Cons.IH by blast
qed

lemma forEach_notification_all_Returned:
  "(\<And>n. n \<in> set ns \<Longrightarrow> snd (notify_notification builtin decodeBase64 this n) = Returned) \<Longrightarrow>
     forEach_notification builtin decodeBase64 this ns =
       (concat (map (\<lambda>n. fst (notify_notification builtin decodeBase64 this n)) ns), Returned)"
proof (induction ns)
  case Nil
  then show ?case by simp
next
  case (Cons n ns)
  have here: "snd (notify_notification builtin decodeBase64 this n) = Returned"
    by (rule Cons.prems) simp
  have rest: "forEach_notification builtin decodeBase64 this ns =
       (concat (map (\<lambda>n. fst (notify_notification builtin decodeBase64 this n)) ns), Returned)"
    by (rule Cons.IH) (simp add: Cons.prems)
  show ?case
    unfolding forEach_notification_Cons here rest by simp
qed

lemma list_ex_append_iff: "list_ex P (xs @ ys) \<longleftrightarrow> list_ex P xs \<or> list_ex P ys"
  by (induction xs) auto

lemma list_ex_map_never: "(\<And>x. \<not> P (g x)) \<Longrightarrow> \<not> list_ex P (map g xs)"
  by (induction xs) auto

lemma list_ex_concat_map:
  "list_ex P (concat (map g ns)) \<longleftrightarrow> (\<exists>n \<in> set ns. list_ex P (g n))"
  by (induction ns) (auto simp: list_ex_append_iff)

lemma list_ex_forEach_notification:
  "list_ex (is_NotifyFn_of f) (fst (forEach_notification builtin decodeBase64 this ns)) \<Longrightarrow>
     \<exists>m \<in> set ns. notifyFns this (ep m @ path m) = Some f"
proof (induction ns)
  case Nil
  then show ?case by simp
next
  case (Cons n ns)
  from Cons.prems
  have "list_ex (is_NotifyFn_of f) (fst (notify_notification builtin decodeBase64 this n))
        \<or> list_ex (is_NotifyFn_of f) (fst (forEach_notification builtin decodeBase64 this ns))"
    unfolding forEach_notification_Cons by (auto simp: list_ex_append_iff split: if_splits)
  then show ?case
  proof
    assume "list_ex (is_NotifyFn_of f) (fst (notify_notification builtin decodeBase64 this n))"
    then have "notifyFns this (ep n @ path n) = Some f"
      by (simp add: list_ex_notify_notification)
    then show ?thesis by simp
  next
    assume "list_ex (is_NotifyFn_of f) (fst (forEach_notification builtin decodeBase64 this ns))"
    from Cons.IH [OF this] show ?thesis by auto
  qed
qed

subsection \<open>One async response\<close>

lemma notify_async_response_Own:
  "asyncFns this (async_id r) = Some fn \<Longrightarrow>
     notify_async_response builtin decodeBase64 r this =
       (this\<lparr>asyncFns := (asyncFns this)(async_id r := None)\<rparr>,
        [AsyncFn fn (async_error r) (async_body decodeBase64 r)], Returned)"
  by (simp add: notify_async_response_def js_get_def Let_def)

lemma stage_notify_async_response:
  "e \<in> set (effects_of (notify_async_response builtin decodeBase64 r this)) \<Longrightarrow> stage e = 5"
  by (auto simp: notify_async_response_def js_get_def Let_def
        split: option.splits if_splits)

lemma AsyncFn_in_notify_async_response:
  "AsyncFn fn err body \<in> set (effects_of (notify_async_response builtin decodeBase64 r this)) \<Longrightarrow>
     asyncFns this (async_id r) = Some fn \<and> err = async_error r \<and> body = async_body decodeBase64 r"
  by (auto simp: notify_async_response_def js_get_def Let_def
        split: option.splits if_splits)

lemma asyncFns_notify_async_response:
  "asyncFns (object_of (notify_async_response builtin decodeBase64 r this)) k = Some v \<Longrightarrow>
     asyncFns this k = Some v"
  by (auto simp: notify_async_response_def js_get_def Let_def
        split: option.splits if_splits)

subsection \<open>The loop over the async responses\<close>

lemma forEach_async_Cons:
  "forEach_async builtin decodeBase64 (r # rs) this =
     (if completion_of (notify_async_response builtin decodeBase64 r this) = Threw
      then notify_async_response builtin decodeBase64 r this
      else (object_of (forEach_async builtin decodeBase64 rs
                         (object_of (notify_async_response builtin decodeBase64 r this))),
            effects_of (notify_async_response builtin decodeBase64 r this)
              @ effects_of (forEach_async builtin decodeBase64 rs
                              (object_of (notify_async_response builtin decodeBase64 r this))),
            completion_of (forEach_async builtin decodeBase64 rs
                             (object_of (notify_async_response builtin decodeBase64 r this)))))"
  by (simp add: object_of_def effects_of_def completion_of_def
        split: prod.splits completion.splits)

lemma stage_forEach_async:
  "e \<in> set (effects_of (forEach_async builtin decodeBase64 rs this)) \<Longrightarrow> stage e = 5"
proof (induction rs arbitrary: this)
  case Nil
  then show ?case by simp
next
  case (Cons r rs)
  let ?one = "notify_async_response builtin decodeBase64 r this"
  from Cons.prems
  have "e \<in> set (effects_of ?one)
        \<or> e \<in> set (effects_of (forEach_async builtin decodeBase64 rs (object_of ?one)))"
    unfolding forEach_async_Cons by (auto split: if_splits)
  then show ?case
    using stage_notify_async_response Cons.IH by blast
qed

lemma AsyncFn_in_forEach_async:
  "AsyncFn fn err body \<in> set (effects_of (forEach_async builtin decodeBase64 rs this)) \<Longrightarrow>
     \<exists>r \<in> set rs. asyncFns this (async_id r) = Some fn
        \<and> err = async_error r \<and> body = async_body decodeBase64 r"
proof (induction rs arbitrary: this)
  case Nil
  then show ?case by simp
next
  case (Cons r rs)
  let ?one = "notify_async_response builtin decodeBase64 r this"
  from Cons.prems
  consider "AsyncFn fn err body \<in> set (effects_of ?one)"
    | "AsyncFn fn err body \<in> set (effects_of (forEach_async builtin decodeBase64 rs (object_of ?one)))"
    unfolding forEach_async_Cons by (auto split: if_splits)
  then show ?case
  proof cases
    case 1
    from AsyncFn_in_notify_async_response [OF 1] show ?thesis by simp
  next
    case 2
    from Cons.IH [OF 2] obtain r' where r': "r' \<in> set rs"
      "asyncFns (object_of ?one) (async_id r') = Some fn"
      "err = async_error r'" "body = async_body decodeBase64 r'"
      by blast
    from asyncFns_notify_async_response [OF r'(2)]
    have "asyncFns this (async_id r') = Some fn" .
    with r' show ?thesis by auto
  qed
qed

subsection \<open>The whole dispatch\<close>

lemma notify_Threw:
  "snd (forEach_notification builtin decodeBase64 this (present (notifications d))) = Threw \<Longrightarrow>
     notify builtin decodeBase64 mapDevice (Some d) this =
       (this, fst (forEach_notification builtin decodeBase64 this (present (notifications d))), Threw)"
proof -
  assume "snd (forEach_notification builtin decodeBase64 this (present (notifications d))) = Threw"
  then obtain es where
    "forEach_notification builtin decodeBase64 this (present (notifications d)) = (es, Threw)"
    by (cases "forEach_notification builtin decodeBase64 this (present (notifications d))") auto
  then show ?thesis by (simp add: notify_def)
qed

lemma notify_Returned:
  "snd (forEach_notification builtin decodeBase64 this (present (notifications d))) = Returned \<Longrightarrow>
     notify builtin decodeBase64 mapDevice (Some d) this =
       (object_of (forEach_async builtin decodeBase64 (present (async_responses d)) this),
        fst (forEach_notification builtin decodeBase64 this (present (notifications d)))
        @ map (\<lambda>device. Emit_REGISTRATION (mapDevice device)) (present (registrations d))
        @ map (\<lambda>device. Emit_REREGISTRATION (mapDevice device)) (present (reg_updates d))
        @ map Emit_DEREGISTRATION (present (de_registrations d))
        @ map Emit_EXPIRED (present (registrations_expired d))
        @ effects_of (forEach_async builtin decodeBase64 (present (async_responses d)) this),
        completion_of (forEach_async builtin decodeBase64 (present (async_responses d)) this))"
proof -
  assume "snd (forEach_notification builtin decodeBase64 this (present (notifications d))) = Returned"
  then obtain es where 1:
    "forEach_notification builtin decodeBase64 this (present (notifications d)) = (es, Returned)"
    by (cases "forEach_notification builtin decodeBase64 this (present (notifications d))") auto
  obtain this' es6 c where 6:
    "forEach_async builtin decodeBase64 (present (async_responses d)) this = (this', es6, c)"
    by (cases "forEach_async builtin decodeBase64 (present (async_responses d)) this")
  show ?thesis by (simp add: notify_def Let_def 1 6)
qed

lemma notify_all_Returned:
  "(\<And>n. n \<in> set (present (notifications d)) \<Longrightarrow>
        snd (notify_notification builtin decodeBase64 this n) = Returned) \<Longrightarrow>
     effects_of (notify builtin decodeBase64 mapDevice (Some d) this) =
        concat (map (\<lambda>n. fst (notify_notification builtin decodeBase64 this n)) (present (notifications d)))
        @ map (\<lambda>device. Emit_REGISTRATION (mapDevice device)) (present (registrations d))
        @ map (\<lambda>device. Emit_REREGISTRATION (mapDevice device)) (present (reg_updates d))
        @ map Emit_DEREGISTRATION (present (de_registrations d))
        @ map Emit_EXPIRED (present (registrations_expired d))
        @ effects_of (forEach_async builtin decodeBase64 (present (async_responses d)) this)"
proof -
  assume all: "\<And>n. n \<in> set (present (notifications d)) \<Longrightarrow>
        snd (notify_notification builtin decodeBase64 this n) = Returned"
  have loop: "forEach_notification builtin decodeBase64 this (present (notifications d)) =
       (concat (map (\<lambda>n. fst (notify_notification builtin decodeBase64 this n)) (present (notifications d))), Returned)"
    by (rule forEach_notification_all_Returned) (rule all)
  then have "snd (forEach_notification builtin decodeBase64 this (present (notifications d))) = Returned"
    by simp
  from notify_Returned [OF this, of mapDevice] show ?thesis
    by (simp add: loop)
qed

lemma map_stage_const:
  "(\<And>e. e \<in> set es \<Longrightarrow> stage e = k) \<Longrightarrow> map stage es = replicate (length es) k"
  by (induction es) auto

lemma filter_stage_other:
  "(\<And>e. e \<in> set es \<Longrightarrow> stage e = k) \<Longrightarrow> k \<noteq> j \<Longrightarrow> filter (\<lambda>e. stage e = j) es = []"
  by (induction es) auto

lemma sorted_stage_notify:
  "sorted (map stage (effects_of (notify builtin decodeBase64 mapDevice (Some d) this)))"
proof (cases "snd (forEach_notification builtin decodeBase64 this (present (notifications d)))")
  case Threw
  have "map stage (fst (forEach_notification builtin decodeBase64 this (present (notifications d))))
          = replicate (length (fst (forEach_notification builtin decodeBase64 this (present (notifications d))))) 0"
    by (rule map_stage_const) (rule stage_forEach_notification)
  then show ?thesis
    unfolding notify_Threw [OF Threw] by simp
next
  case Returned
  have 1: "map stage (fst (forEach_notification builtin decodeBase64 this (present (notifications d))))
          = replicate (length (fst (forEach_notification builtin decodeBase64 this (present (notifications d))))) 0"
    by (rule map_stage_const) (rule stage_forEach_notification)
  have 6: "map stage (effects_of (forEach_async builtin decodeBase64 (present (async_responses d)) this))
          = replicate (length (effects_of (forEach_async builtin decodeBase64 (present (async_responses d)) this))) 5"
    by (rule map_stage_const) (rule stage_forEach_async)
  show ?thesis
    unfolding notify_Returned [OF Returned] result_parts map_append 1 6
    by (auto simp: o_def map_replicate_const sorted_append)
qed

lemma sorted_stage_nth:
  "sorted (map stage es) \<Longrightarrow> i < length es \<Longrightarrow> j < length es \<Longrightarrow> stage (es ! i) < stage (es ! j) \<Longrightarrow> i < j"
  by (metis (no_types, lifting) leD length_map not_le_imp_less nth_map sorted_iff_nth_mono)

lemma filter_stage_notifications:
  "0 < j \<Longrightarrow> filter (\<lambda>e. stage e = j)
     (concat (map (\<lambda>n. fst (notify_notification builtin decodeBase64 this n)) ns)) = []"
  by (rule filter_stage_other [where k = 0]) (auto dest: stage_notify_notification)

lemma filter_stage_async:
  "j < 5 \<Longrightarrow> filter (\<lambda>e. stage e = j) (effects_of (forEach_async builtin decodeBase64 rs this)) = []"
  by (rule filter_stage_other [where k = 5]) (auto dest: stage_forEach_async)

lemma filter_stage_notify_3:
  assumes "\<And>n. n \<in> set (present (notifications d)) \<Longrightarrow>
        snd (notify_notification builtin decodeBase64 this n) = Returned"
  shows "filter (\<lambda>e. stage e = 3) (effects_of (notify builtin decodeBase64 mapDevice (Some d) this))
     = map Emit_DEREGISTRATION (present (de_registrations d))"
proof -
  have eff: "effects_of (notify builtin decodeBase64 mapDevice (Some d) this) =
        concat (map (\<lambda>n. fst (notify_notification builtin decodeBase64 this n)) (present (notifications d)))
        @ map (\<lambda>device. Emit_REGISTRATION (mapDevice device)) (present (registrations d))
        @ map (\<lambda>device. Emit_REREGISTRATION (mapDevice device)) (present (reg_updates d))
        @ map Emit_DEREGISTRATION (present (de_registrations d))
        @ map Emit_EXPIRED (present (registrations_expired d))
        @ effects_of (forEach_async builtin decodeBase64 (present (async_responses d)) this)"
    by (rule notify_all_Returned) (rule assms(1))
  show ?thesis
    unfolding eff filter_append
    by (simp add: filter_stage_notifications filter_stage_async filter_map o_def)
qed

lemma filter_stage_notify_4:
  assumes "\<And>n. n \<in> set (present (notifications d)) \<Longrightarrow>
        snd (notify_notification builtin decodeBase64 this n) = Returned"
  shows "filter (\<lambda>e. stage e = 4) (effects_of (notify builtin decodeBase64 mapDevice (Some d) this))
     = map Emit_EXPIRED (present (registrations_expired d))"
proof -
  have eff: "effects_of (notify builtin decodeBase64 mapDevice (Some d) this) =
        concat (map (\<lambda>n. fst (notify_notification builtin decodeBase64 this n)) (present (notifications d)))
        @ map (\<lambda>device. Emit_REGISTRATION (mapDevice device)) (present (registrations d))
        @ map (\<lambda>device. Emit_REREGISTRATION (mapDevice device)) (present (reg_updates d))
        @ map Emit_DEREGISTRATION (present (de_registrations d))
        @ map Emit_EXPIRED (present (registrations_expired d))
        @ effects_of (forEach_async builtin decodeBase64 (present (async_responses d)) this)"
    by (rule notify_all_Returned) (rule assms(1))
  show ?thesis
    unfolding eff filter_append
    by (simp add: filter_stage_notifications filter_stage_async filter_map o_def)
qed

lemma count_concat_NotifyFn:
  "(\<And>n. n \<in> set ns \<Longrightarrow> snd (notify_notification builtin decodeBase64 this n) = Returned) \<Longrightarrow>
   count_list (concat (map (\<lambda>n. fst (notify_notification builtin decodeBase64 this n)) ns)) (NotifyFn f body) =
     length (filter (\<lambda>n. notifyFns this (ep n @ path n) = Some f
                         \<and> decodeBody decodeBase64 (payload n) (ct n) = body) ns)"
proof (induction ns)
  case Nil
  then show ?case by simp
next
  case (Cons n ns)
  have here: "snd (notify_notification builtin decodeBase64 this n) = Returned"
    by (rule Cons.prems) simp
  have rest: "count_list (concat (map (\<lambda>n. fst (notify_notification builtin decodeBase64 this n)) ns)) (NotifyFn f body) =
     length (filter (\<lambda>n. notifyFns this (ep n @ path n) = Some f
                         \<and> decodeBody decodeBase64 (payload n) (ct n) = body) ns)"
    by (rule Cons.IH) (simp add: Cons.prems)
  show ?case
    by (cases "notifyFns this (ep n @ path n)")
       (auto simp: notify_notification_Returned [OF here] rest)
qed

lemma count_concat_Emit_NOTIFICATION:
  "(\<And>n. n \<in> set ns \<Longrightarrow> snd (notify_notification builtin decodeBase64 this n) = Returned) \<Longrightarrow>
   count_list (concat (map (\<lambda>n. fst (notify_notification builtin decodeBase64 this n)) ns)) (Emit_NOTIFICATION i p body) =
     length (filter (\<lambda>n. ep n = i \<and> path n = p
                         \<and> decodeBody decodeBase64 (payload n) (ct n) = body) ns)"
proof (induction ns)
  case Nil
  then show ?case by simp
next
  case (Cons n ns)
  have here: "snd (notify_notification builtin decodeBase64 this n) = Returned"
    by (rule Cons.prems) simp
  have rest: "count_list (concat (map (\<lambda>n. fst (notify_notification builtin decodeBase64 this n)) ns)) (Emit_NOTIFICATION i p body) =
     length (filter (\<lambda>n. ep n = i \<and> path n = p
                         \<and> decodeBody decodeBase64 (payload n) (ct n) = body) ns)"
    by (rule Cons.IH) (simp add: Cons.prems)
  show ?case
    by (cases "notifyFns this (ep n @ path n)")
       (auto simp: notify_notification_Returned [OF here] rest)
qed

lemma count_forEach_async_stage0:
  "stage e = 0 \<Longrightarrow> count_list (effects_of (forEach_async builtin decodeBase64 rs this)) e = 0"
  using stage_forEach_async [of e builtin decodeBase64 rs this] by (auto simp: count_list_0_iff)

lemma count_notify_NotifyFn:
  assumes "\<And>n. n \<in> set (present (notifications d)) \<Longrightarrow>
        snd (notify_notification builtin decodeBase64 this n) = Returned"
  shows "count_list (effects_of (notify builtin decodeBase64 mapDevice (Some d) this)) (NotifyFn f body) =
     length (filter (\<lambda>n. notifyFns this (ep n @ path n) = Some f
                         \<and> decodeBody decodeBase64 (payload n) (ct n) = body)
               (present (notifications d)))"
proof -
  have eff: "effects_of (notify builtin decodeBase64 mapDevice (Some d) this) =
        concat (map (\<lambda>n. fst (notify_notification builtin decodeBase64 this n)) (present (notifications d)))
        @ map (\<lambda>device. Emit_REGISTRATION (mapDevice device)) (present (registrations d))
        @ map (\<lambda>device. Emit_REREGISTRATION (mapDevice device)) (present (reg_updates d))
        @ map Emit_DEREGISTRATION (present (de_registrations d))
        @ map Emit_EXPIRED (present (registrations_expired d))
        @ effects_of (forEach_async builtin decodeBase64 (present (async_responses d)) this)"
    by (rule notify_all_Returned) (rule assms(1))
  have cnt: "count_list (concat (map (\<lambda>n. fst (notify_notification builtin decodeBase64 this n)) (present (notifications d)))) (NotifyFn f body) =
     length (filter (\<lambda>n. notifyFns this (ep n @ path n) = Some f
                         \<and> decodeBody decodeBase64 (payload n) (ct n) = body) (present (notifications d)))"
    by (rule count_concat_NotifyFn) (rule assms(1))
  show ?thesis
    unfolding eff count_list_append cnt
    by (auto simp: count_forEach_async_stage0 count_list_0_iff)
qed

lemma count_notify_Emit_NOTIFICATION:
  assumes "\<And>n. n \<in> set (present (notifications d)) \<Longrightarrow>
        snd (notify_notification builtin decodeBase64 this n) = Returned"
  shows "count_list (effects_of (notify builtin decodeBase64 mapDevice (Some d) this)) (Emit_NOTIFICATION i p body) =
     length (filter (\<lambda>n. ep n = i \<and> path n = p
                         \<and> decodeBody decodeBase64 (payload n) (ct n) = body)
               (present (notifications d)))"
proof -
  have eff: "effects_of (notify builtin decodeBase64 mapDevice (Some d) this) =
        concat (map (\<lambda>n. fst (notify_notification builtin decodeBase64 this n)) (present (notifications d)))
        @ map (\<lambda>device. Emit_REGISTRATION (mapDevice device)) (present (registrations d))
        @ map (\<lambda>device. Emit_REREGISTRATION (mapDevice device)) (present (reg_updates d))
        @ map Emit_DEREGISTRATION (present (de_registrations d))
        @ map Emit_EXPIRED (present (registrations_expired d))
        @ effects_of (forEach_async builtin decodeBase64 (present (async_responses d)) this)"
    by (rule notify_all_Returned) (rule assms(1))
  have cnt: "count_list (concat (map (\<lambda>n. fst (notify_notification builtin decodeBase64 this n)) (present (notifications d)))) (Emit_NOTIFICATION i p body) =
     length (filter (\<lambda>n. ep n = i \<and> path n = p
                         \<and> decodeBody decodeBase64 (payload n) (ct n) = body) (present (notifications d)))"
    by (rule count_concat_Emit_NOTIFICATION) (rule assms(1))
  show ?thesis
    unfolding eff count_list_append cnt
    by (auto simp: count_forEach_async_stage0 count_list_0_iff)
qed

lemma is_NotifyFn_of_stage: "is_NotifyFn_of f e \<Longrightarrow> stage e = 0"
  by (cases e) simp_all

lemma list_ex_notify_imp:
  "list_ex (is_NotifyFn_of f) (effects_of (notify builtin decodeBase64 mapDevice (Some d) this)) \<Longrightarrow>
     \<exists>m \<in> set (present (notifications d)). notifyFns this (ep m @ path m) = Some f"
proof (cases "snd (forEach_notification builtin decodeBase64 this (present (notifications d)))")
  case Threw
  assume "list_ex (is_NotifyFn_of f) (effects_of (notify builtin decodeBase64 mapDevice (Some d) this))"
  then have "list_ex (is_NotifyFn_of f)
      (fst (forEach_notification builtin decodeBase64 this (present (notifications d))))"
    unfolding notify_Threw [OF Threw] by simp
  then show ?thesis by (rule list_ex_forEach_notification)
next
  case Returned
  assume a: "list_ex (is_NotifyFn_of f) (effects_of (notify builtin decodeBase64 mapDevice (Some d) this))"
  have "\<not> list_ex (is_NotifyFn_of f) (effects_of (forEach_async builtin decodeBase64 (present (async_responses d)) this))"
    using stage_forEach_async is_NotifyFn_of_stage
    by (fastforce simp: list_ex_iff)
  with a have "list_ex (is_NotifyFn_of f)
      (fst (forEach_notification builtin decodeBase64 this (present (notifications d))))"
    unfolding notify_Returned [OF Returned]
    by (simp add: list_ex_append_iff list_ex_map_never)
  then show ?thesis by (rule list_ex_forEach_notification)
qed

lemma list_ex_notify_all_Returned:
  assumes "\<And>n. n \<in> set (present (notifications d)) \<Longrightarrow>
        snd (notify_notification builtin decodeBase64 this n) = Returned"
    and "m \<in> set (present (notifications d))" and "notifyFns this (ep m @ path m) = Some f"
  shows "list_ex (is_NotifyFn_of f) (effects_of (notify builtin decodeBase64 mapDevice (Some d) this))"
proof -
  have eff: "effects_of (notify builtin decodeBase64 mapDevice (Some d) this) =
        concat (map (\<lambda>n. fst (notify_notification builtin decodeBase64 this n)) (present (notifications d)))
        @ map (\<lambda>device. Emit_REGISTRATION (mapDevice device)) (present (registrations d))
        @ map (\<lambda>device. Emit_REREGISTRATION (mapDevice device)) (present (reg_updates d))
        @ map Emit_DEREGISTRATION (present (de_registrations d))
        @ map Emit_EXPIRED (present (registrations_expired d))
        @ effects_of (forEach_async builtin decodeBase64 (present (async_responses d)) this)"
    by (rule notify_all_Returned) (rule assms(1))
  have "list_ex (is_NotifyFn_of f)
      (concat (map (\<lambda>n. fst (notify_notification builtin decodeBase64 this n)) (present (notifications d))))"
    unfolding list_ex_concat_map list_ex_notify_notification
    using assms(2,3) by blast
  then show ?thesis
    unfolding eff by (simp add: list_ex_append_iff)
qed

subsection \<open>\<open>normalizePath\<close> and the key of a subscription\<close>

lemma normalizePath_slash: "normalizePath (CHR ''/'' # s) = s"
  by (simp add: normalizePath_def)

lemma normalizePath_no_slash: "(\<And>s. p \<noteq> CHR ''/'' # s) \<Longrightarrow> normalizePath p = p"
  by (cases p) (auto simp: normalizePath_def)

lemma key_not_proto: "d @ ''/'' @ s \<noteq> ''__proto__''"
proof
  assume eq: "d @ ''/'' @ s = ''__proto__''"
  have "CHR ''/'' \<in> set (d @ ''/'' @ s)" by simp
  then have "CHR ''/'' \<in> set ''__proto__''" by (simp only: eq)
  then show False by simp
qed

lemma key_not_proto_Cons: "d @ CHR ''/'' # s \<noteq> ''__proto__''"
  using key_not_proto [of d s] by simp

lemma notifyFns_addResourceSubscription:
  "addResourceSubscription d p (Some f) done asyncID this = Some (this', out) \<Longrightarrow>
     notifyFns this' = (notifyFns this)(d @ ''/'' @ normalizePath p \<mapsto> f)"
  by (auto simp: addResourceSubscription_def js_set_def key_not_proto Let_def
        split: option.splits if_splits)

subsection \<open>A key that names an inherited property\<close>

text \<open>A resource notification whose device id followed by its path is \<open>__proto__\<close> makes
  \<open>notify\<close> throw in \<open>fn(body)\<close>: no event is emitted for it and the rest of the batch, here
  a deregistration, is not processed.\<close>

lemma notify_throws_at_inherited_key:
  "notify strict_builtin raw_payload raw_device
     (Some (empty_batch\<lparr>notifications := Some [proto_notification],
                         de_registrations := Some [''dev4'']\<rparr>)) example_api
     = (example_api, [], Threw)"
  by (simp add: notify_def present_def notify_notification_def decodeBody_def js_get_def
        Let_def example_api_def proto_notification_def empty_batch_def)

section \<open>The claims\<close>

lemmas example_defs = example_api_def example_batch_def example_notification_def
  not_found_response_def ok_response_def raw_payload_def raw_device_def
  slashless_notification_def proto_notification_def proto_response_def
  subscribed_api_def new_ConnectApi_def empty_batch_def

lemmas notify_defs = notify_def present_def notify_notification_def decodeBody_def
  notify_async_response_def error_or_status_def async_error_def async_body_def
  js_get_def Object_prototype_methods_def Let_def

lemmas runtime_defs = step_def startNotifications_def startNotifications_callback_def
  stopNotifications_def stopNotifications_callback_def poll_def poll_callback_def delay_def
  new_runtime_def new_ConnectApi_def no_options_def empty_batch_def

text \<open>
  Claim C1 against the code: the callback 7 is pending under the id \<open>a1\<close> and nothing is
  pending under \<open>__proto__\<close>.  A batch whose async responses are one for \<open>__proto__\<close> and
  then one for \<open>a1\<close> makes \<open>notify\<close> throw at the first response, which is not dropped
  silently: \<open>this._asyncFns["__proto__"]\<close> is the inherited prototype object, truthy and not
  a function.  The callback 7 is never called and its entry stays.
\<close>

theorem notify_unmatched_proto_id_throws:
  "asyncFns example_api ''a1'' = Some 7
   \<and> asyncFns example_api ''__proto__'' = None
   \<and> notify strict_builtin raw_payload raw_device
        (Some (empty_batch\<lparr>async_responses := Some [proto_response, ok_response]\<rparr>)) example_api
       = (example_api, [], Threw)"
  by (simp add: notify_defs example_defs)

text \<open>
  Claim C2, as stated, fails: after \<open>addResourceSubscription("dev1", "3200/0/5500", 3)\<close> a
  resource notification for the device \<open>dev1\<close> and the path \<open>3200/0/5500\<close> emits the
  event and does not call the callback 3, which is stored under \<open>dev1/3200/0/5500\<close> and
  looked up under \<open>dev13200/0/5500\<close>.
\<close>

theorem subscription_slashless_path_counterexample:
  "addResourceSubscription ''dev1'' ''3200/0/5500'' (Some 3) 9 None new_ConnectApi
     = Some (subscribed_api, Some (Inr None))
   \<and> notify strict_builtin raw_payload raw_device
        (Some (empty_batch\<lparr>notifications := Some [slashless_notification]\<rparr>)) subscribed_api
       = (subscribed_api, [Emit_NOTIFICATION ''dev1'' ''3200/0/5500'' (Some ''NDI='')], Returned)"
  by (simp add: addResourceSubscription_def js_set_def normalizePath_def notify_defs example_defs)

text \<open>
  Claim C2, amended. Let \<open>addResourceSubscription(d, p, f)\<close> have stored \<open>f\<close>, and let no
  resource notification of the batch throw (none looks up a key that names a property
  inherited from \<open>Object.prototype\<close> whose call throws).  Then \<open>notify\<close> calls \<open>f\<close> with the
  value \<open>body\<close> once for each resource notification of the batch whose device id followed
  directly by its path is the key \<open>d + "/" + normalizePath(p)\<close> (or a key \<open>f\<close> was stored
  under before) and whose decoded payload is \<open>body\<close>, and never otherwise; and it emits the
  event \<open>notification\<close> with device id, path and decoded payload once for each resource
  notification of the batch that carries them, registered or not.
\<close>

theorem notify_registered_subscription:
  assumes "addResourceSubscription d p (Some f) done asyncID this = Some (this', out)"
    and "\<forall>n \<in> set (present (notifications data)).
           snd (notify_notification builtin decodeBase64 this' n) = Returned"
  shows "count_list (effects_of (notify builtin decodeBase64 mapDevice (Some data) this'))
           (NotifyFn f body) =
         length (filter (\<lambda>n. (ep n @ path n = d @ ''/'' @ normalizePath p
                               \<or> notifyFns this (ep n @ path n) = Some f)
                             \<and> decodeBody decodeBase64 (payload n) (ct n) = body)
                   (present (notifications data)))
       \<and> count_list (effects_of (notify builtin decodeBase64 mapDevice (Some data) this'))
           (Emit_NOTIFICATION i q body) =
         length (filter (\<lambda>n. ep n = i \<and> path n = q
                             \<and> decodeBody decodeBase64 (payload n) (ct n) = body)
                   (present (notifications data)))"
proof -
  have all: "\<And>n. n \<in> set (present (notifications data)) \<Longrightarrow>
        snd (notify_notification builtin decodeBase64 this' n) = Returned"
    using assms(2) by blast
  have stored: "notifyFns this' = (notifyFns this)(d @ ''/'' @ normalizePath p \<mapsto> f)"
    by (rule notifyFns_addResourceSubscription) (rule assms(1))
  have same: "(\<lambda>n. notifyFns this' (ep n @ path n) = Some f
                    \<and> decodeBody decodeBase64 (payload n) (ct n) = body)
            = (\<lambda>n. (ep n @ path n = d @ ''/'' @ normalizePath p
                       \<or> notifyFns this (ep n @ path n) = Some f)
                    \<and> decodeBody decodeBase64 (payload n) (ct n) = body)"
    unfolding stored by auto
  have calls: "count_list (effects_of (notify builtin decodeBase64 mapDevice (Some data) this'))
           (NotifyFn f body) =
         length (filter (\<lambda>n. notifyFns this' (ep n @ path n) = Some f
                             \<and> decodeBody decodeBase64 (payload n) (ct n) = body)
                   (present (notifications data)))"
    by (rule count_notify_NotifyFn) (rule all)
  have events: "count_list (effects_of (notify builtin decodeBase64 mapDevice (Some data) this'))
           (Emit_NOTIFICATION i q body) =
         length (filter (\<lambda>n. ep n = i \<and> path n = q
                             \<and> decodeBody decodeBase64 (payload n) (ct n) = body)
                   (present (notifications data)))"
    by (rule count_notify_Emit_NOTIFICATION) (rule all)
  from calls events show ?thesis
    unfolding same by (rule conjI)
qed

theorem notify_registered_subscription_witness:
  "addResourceSubscription ''dev1'' ''/3200/0/5500'' (Some 3) 9 None new_ConnectApi
     = Some (subscribed_api, Some (Inr None))
   \<and> snd (notify_notification strict_builtin raw_payload subscribed_api example_notification)
       = Returned
   \<and> count_list (effects_of (notify strict_builtin raw_payload raw_device (Some example_batch)
                                subscribed_api))
        (NotifyFn 3 (Some ''NDI='')) = 1
   \<and> count_list (effects_of (notify strict_builtin raw_payload raw_device (Some example_batch)
                                subscribed_api))
        (Emit_NOTIFICATION ''dev1'' ''/3200/0/5500'' (Some ''NDI='')) = 1"
proof -
  have stored: "addResourceSubscription ''dev1'' ''/3200/0/5500'' (Some 3) 9 None new_ConnectApi
     = Some (subscribed_api, Some (Inr None))"
    by (simp add: addResourceSubscription_def js_set_def normalizePath_def example_defs)
  have returns: "\<forall>n \<in> set (present (notifications example_batch)).
         snd (notify_notification strict_builtin raw_payload subscribed_api n) = Returned"
    by (simp add: notify_defs example_defs)
  from notify_registered_subscription
      [OF stored returns, of raw_device "Some ''NDI=''" "''dev1''" "''/3200/0/5500''"]
  have "count_list (effects_of (notify strict_builtin raw_payload raw_device (Some example_batch)
                                subscribed_api))
        (NotifyFn 3 (Some ''NDI='')) = 1
   \<and> count_list (effects_of (notify strict_builtin raw_payload raw_device (Some example_batch)
                                subscribed_api))
        (Emit_NOTIFICATION ''dev1'' ''/3200/0/5500'' (Some ''NDI='')) = 1"
    by (simp add: present_def decodeBody_def normalizePath_def example_defs)
  moreover have "snd (notify_notification strict_builtin raw_payload subscribed_api
      example_notification) = Returned"
    by (simp add: notify_defs example_defs)
  ultimately show ?thesis using stored by blast
qed

text \<open>
  Claim C3. A response whose id has a pending callback calls it once: with an error built
  from the remote error string (or the status when there is none) and the status as code,
  and a null payload, when the status is at least 400; with a null error and the decoded
  payload (null when the payload is absent or empty) otherwise.  Every call of a correlator
  callback made by \<open>notify\<close> has this form for a response of the batch.
\<close>

theorem async_response_callback_arguments:
  "(asyncFns this (async_id r) = Some fn \<longrightarrow>
      effects_of (notify_async_response builtin decodeBase64 r this) =
        (if status r \<ge> 400
         then [AsyncFn fn
                 (Some \<lparr>message = (case error r of
                                     Some s \<Rightarrow> if s \<noteq> [] then Inl s else Inr (status r)
                                   | None \<Rightarrow> Inr (status r)),
                        innerError = None, details = None, code = status r\<rparr>)
                 None]
         else [AsyncFn fn None
                 (case async_payload r of
                    None \<Rightarrow> None
                  | Some s \<Rightarrow> if s \<noteq> [] then Some (decodeBase64 s (async_ct r)) else None)]))
   \<and> (AsyncFn fn err body \<in> set (effects_of (notify builtin decodeBase64 mapDevice (Some data) this)) \<longrightarrow>
        (\<exists>r' \<in> set (present (async_responses data)).
           asyncFns this (async_id r') = Some fn \<and>
           (if status r' \<ge> 400
            then err = Some \<lparr>message = error_or_status r', innerError = None, details = None,
                             code = status r'\<rparr>
                 \<and> body = None
            else err = None
                 \<and> body = decodeBody decodeBase64 (async_payload r') (async_ct r'))))"
proof (intro conjI impI)
  assume "asyncFns this (async_id r) = Some fn"
  then show "effects_of (notify_async_response builtin decodeBase64 r this) =
        (if status r \<ge> 400
         then [AsyncFn fn
                 (Some \<lparr>message = (case error r of
                                     Some s \<Rightarrow> if s \<noteq> [] then Inl s else Inr (status r)
                                   | None \<Rightarrow> Inr (status r)),
                        innerError = None, details = None, code = status r\<rparr>)
                 None]
         else [AsyncFn fn None
                 (case async_payload r of
                    None \<Rightarrow> None
                  | Some s \<Rightarrow> if s \<noteq> [] then Some (decodeBase64 s (async_ct r)) else None)])"
    by (simp add: notify_async_response_Own async_error_def async_body_def
          error_or_status_def decodeBody_def)
next
  assume a: "AsyncFn fn err body \<in> set (effects_of (notify builtin decodeBase64 mapDevice (Some data) this))"
  have "AsyncFn fn err body
          \<in> set (effects_of (forEach_async builtin decodeBase64 (present (async_responses data)) this))"
  proof (cases "snd (forEach_notification builtin decodeBase64 this (present (notifications data)))")
    case Threw
    from a have "AsyncFn fn err body
        \<in> set (fst (forEach_notification builtin decodeBase64 this (present (notifications data))))"
      unfolding notify_Threw [OF Threw] by simp
    from stage_forEach_notification [OF this] show ?thesis by simp
  next
    case Returned
    from a have "AsyncFn fn err body
        \<in> set (fst (forEach_notification builtin decodeBase64 this (present (notifications data))))
        \<or> AsyncFn fn err body
          \<in> set (effects_of (forEach_async builtin decodeBase64 (present (async_responses data)) this))"
      unfolding notify_Returned [OF Returned] by auto
    then show ?thesis
      using stage_forEach_notification [of "AsyncFn fn err body" builtin decodeBase64 this
          "present (notifications data)"]
      by auto
  qed
  from AsyncFn_in_forEach_async [OF this]
  obtain r' where "r' \<in> set (present (async_responses data))"
    "asyncFns this (async_id r') = Some fn"
    "err = async_error r'" "body = async_body decodeBase64 r'"
    by blast
  then show "\<exists>r' \<in> set (present (async_responses data)).
           asyncFns this (async_id r') = Some fn \<and>
           (if status r' \<ge> 400
            then err = Some \<lparr>message = error_or_status r', innerError = None, details = None,
                             code = status r'\<rparr>
                 \<and> body = None
            else err = None
                 \<and> body = decodeBody decodeBase64 (async_payload r') (async_ct r'))"
    by (auto simp: async_error_def async_body_def)
qed

theorem async_response_callback_arguments_witness:
  "asyncFns example_api (async_id not_found_response) = Some 7
   \<and> effects_of (notify_async_response strict_builtin raw_payload not_found_response example_api) =
       [AsyncFn 7 (Some \<lparr>message = Inl ''not found'', innerError = None, details = None, code = 404\<rparr>) None]
   \<and> AsyncFn 7 (Some \<lparr>message = Inl ''not found'', innerError = None, details = None, code = 404\<rparr>) None
        \<in> set (effects_of (notify strict_builtin raw_payload raw_device (Some example_batch) example_api))"
  using async_response_callback_arguments
    [of example_api not_found_response 7 strict_builtin raw_payload
        "Some \<lparr>message = Inl ''not found'', innerError = None, details = None, code = 404\<rparr>"
        None raw_device example_batch]
  by (simp add: notify_defs example_defs)

text \<open>
  Claim C4, as stated, fails: a call of \<open>startNotifications\<close> on a new object, followed by
  the completion of the request it issued, issues the request that deletes the webhook
  callback and then the first poll request; no request deleting the pull channel is
  issued.
\<close>

theorem startNotifications_no_pull_delete_counterexample:
  "requests_issued
     (exec strict_builtin raw_payload raw_device
        [Call_startNotifications no_options,
         Complete (deleteWebhook_callback no_options) None None] new_runtime)
     = [v2NotificationCallbackDelete, v2NotificationPullGet]
   \<and> count_list
     (requests_issued
       (exec strict_builtin raw_payload raw_device
          [Call_startNotifications no_options,
           Complete (deleteWebhook_callback no_options) None None] new_runtime))
     v2NotificationPullDelete = 0"
  by (simp add: requests_issued_def runtime_defs)

text \<open>
  Claim C4, amended. Every call of \<open>startNotifications\<close> issues exactly one request, the
  deletion of the webhook callback (through \<open>deleteWebhook\<close>), and changes nothing else;
  whatever the answer to that request, its completion issues the first poll request and
  then sets \<open>handleNotifications\<close>.
\<close>

theorem startNotifications_deletes_webhook_first:
  "map_option log (exec builtin decodeBase64 mapDevice [Call_startNotifications options] rt)
     = Some (log rt @ [Request v2NotificationCallbackDelete])
   \<and> map_option api (exec builtin decodeBase64 mapDevice [Call_startNotifications options] rt)
     = Some (api rt)
   \<and> map_option log
       (exec builtin decodeBase64 mapDevice
          [Call_startNotifications options,
           Complete (deleteWebhook_callback options) err data] rt)
     = Some (log rt @ [Request v2NotificationCallbackDelete, Request v2NotificationPullGet,
                       Done_startNotifications])
   \<and> map_option api
       (exec builtin decodeBase64 mapDevice
          [Call_startNotifications options,
           Complete (deleteWebhook_callback options) err data] rt)
     = Some ((api rt)\<lparr>pollRequest := Some (issued rt), handleNotifications := True\<rparr>)"
  by (simp add: step_def startNotifications_def startNotifications_callback_def poll_def Let_def)

theorem startNotifications_deletes_webhook_first_witness:
  "map_option log
       (exec strict_builtin raw_payload raw_device
          [Call_startNotifications no_options,
           Complete (deleteWebhook_callback no_options) None None] new_runtime)
     = Some [Request v2NotificationCallbackDelete, Request v2NotificationPullGet,
             Done_startNotifications]"
  using startNotifications_deletes_webhook_first
    [of strict_builtin raw_payload raw_device no_options new_runtime None None]
  by (simp add: new_runtime_def)

text \<open>
  Claim C5 against the code: when the transport answers the deletion of the webhook with
  the error 404, \<open>deleteWebhook\<close> settles with \<open>done(null, null)\<close>, a success.
\<close>

theorem deleteWebhook_swallows_not_found:
  "deleteWebhook
     (Some \<lparr>message = Inl ''Not Found'', innerError = None, details = None, code = 404\<rparr>)
     (None :: string option) = Inr None"
  by (simp add: deleteWebhook_def)

text \<open>
  Claim C6 against the code: pull notifications are started, the first poll is answered
  without error (which schedules the next poll with \<open>setTimeout\<close>), \<open>stopNotifications\<close>
  is called and completes, and then the timer fires.  The log ends with a poll request
  issued after \<open>stopNotifications\<close> has settled.
\<close>

theorem stopNotifications_scheduled_poll_still_fires:
  "map_option log
     (exec strict_builtin raw_payload raw_device
        [Call_startNotifications no_options,
         Complete (deleteWebhook_callback no_options) None None,
         Complete (PullGet_callback 0 no_options) None (Some empty_batch),
         Call_stopNotifications,
         Complete PullDelete_callback None None,
         Complete (Timer no_options) None None] new_runtime)
     = Some [Request v2NotificationCallbackDelete, Request v2NotificationPullGet,
             Done_startNotifications, SetTimeout 500,
             Request v2NotificationPullDelete, Abort 0, Done_stopNotifications,
             Request v2NotificationPullGet]"
  by (simp add: runtime_defs notify_defs)

text \<open>
  Claim C7. \<open>getWebhook\<close> settles with the value null when the transport reports an error
  with code 404, with the error itself when the transport reports any other error, and
  with the mapped webhook when there is no error.
\<close>

theorem getWebhook_not_found_is_null:
  "(err = Some e \<and> code e = 404 \<longrightarrow> getWebhook mapWebhook err data = Inr None)
   \<and> (err = Some e \<and> code e \<noteq> 404 \<longrightarrow> getWebhook mapWebhook err data = Inl e)
   \<and> (err = None \<longrightarrow> getWebhook mapWebhook err data = Inr (Some (mapWebhook data)))"
  by (simp add: getWebhook_def)

theorem getWebhook_not_found_is_null_witness:
  "getWebhook raw_device
     (Some \<lparr>message = Inl ''Not Found'', innerError = None, details = None, code = 404\<rparr>)
     [] = Inr None
   \<and> getWebhook raw_device
     (Some \<lparr>message = Inl ''Unauthorized'', innerError = None, details = None, code = 401\<rparr>)
     [] = Inl \<lparr>message = Inl ''Unauthorized'', innerError = None, details = None, code = 401\<rparr>
   \<and> getWebhook raw_device None ''http://example.org/hook''
       = Inr (Some ''http://example.org/hook'')"
  using getWebhook_not_found_is_null
      [of "Some \<lparr>message = Inl ''Not Found'', innerError = None, details = None, code = 404\<rparr>"
          "\<lparr>message = Inl ''Not Found'', innerError = None, details = None, code = 404\<rparr>"
          raw_device "[]"]
    getWebhook_not_found_is_null
      [of "Some \<lparr>message = Inl ''Unauthorized'', innerError = None, details = None, code = 401\<rparr>"
          "\<lparr>message = Inl ''Unauthorized'', innerError = None, details = None, code = 401\<rparr>"
          raw_device "[]"]
    getWebhook_not_found_is_null
      [of None "\<lparr>message = Inl ''Unauthorized'', innerError = None, details = None, code = 401\<rparr>"
          raw_device "''http://example.org/hook''"]
  by (simp add: raw_device_def)

text \<open>
  Claim C8. The effects of one call of \<open>notify\<close> come in the order of the stages: resource
  notifications, registrations, re-registrations, deregistrations, expirations, async
  responses; an effect of an earlier stage stands before any effect of a later one, in
  particular every deregistration before every expiration.  This holds also of a call that
  throws, whose effects end where it throws.  When no resource notification throws, the
  effects of stage 3 are exactly the deregistration events of the batch and those of
  stage 4 its expiration events.
\<close>

theorem notify_fixed_processing_order:
  "(let es = effects_of (notify builtin decodeBase64 mapDevice (Some data) this) in
      sorted (map stage es)
      \<and> (\<forall>i j. i < length es \<and> j < length es \<and> stage (es ! i) < stage (es ! j) \<longrightarrow> i < j)
      \<and> ((\<forall>n \<in> set (present (notifications data)).
             snd (notify_notification builtin decodeBase64 this n) = Returned) \<longrightarrow>
           filter (\<lambda>e. stage e = 3) es = map Emit_DEREGISTRATION (present (de_registrations data))
           \<and> filter (\<lambda>e. stage e = 4) es = map Emit_EXPIRED (present (registrations_expired data))))"
proof -
  let ?es = "effects_of (notify builtin decodeBase64 mapDevice (Some data) this)"
  have ordered: "sorted (map stage ?es)"
    by (rule sorted_stage_notify)
  then have index: "\<forall>i j. i < length ?es \<and> j < length ?es \<and> stage (?es ! i) < stage (?es ! j) \<longrightarrow> i < j"
    using sorted_stage_nth [of ?es] by blast
  have exact: "(\<forall>n \<in> set (present (notifications data)).
             snd (notify_notification builtin decodeBase64 this n) = Returned) \<longrightarrow>
           filter (\<lambda>e. stage e = 3) ?es = map Emit_DEREGISTRATION (present (de_registrations data))
           \<and> filter (\<lambda>e. stage e = 4) ?es = map Emit_EXPIRED (present (registrations_expired data))"
  proof
    assume "\<forall>n \<in> set (present (notifications data)).
             snd (notify_notification builtin decodeBase64 this n) = Returned"
    then have all: "\<And>n. n \<in> set (present (notifications data)) \<Longrightarrow>
             snd (notify_notification builtin decodeBase64 this n) = Returned"
      by blast
    have 3: "filter (\<lambda>e. stage e = 3) ?es = map Emit_DEREGISTRATION (present (de_registrations data))"
      by (rule filter_stage_notify_3) (rule all)
    have 4: "filter (\<lambda>e. stage e = 4) ?es = map Emit_EXPIRED (present (registrations_expired data))"
      by (rule filter_stage_notify_4) (rule all)
    from 3 4 show "filter (\<lambda>e. stage e = 3) ?es = map Emit_DEREGISTRATION (present (de_registrations data))
           \<and> filter (\<lambda>e. stage e = 4) ?es = map Emit_EXPIRED (present (registrations_expired data))"
      by (rule conjI)
  qed
  from ordered index exact show ?thesis
    unfolding Let_def by blast
qed

theorem notify_fixed_processing_order_witness:
  "snd (notify_notification strict_builtin raw_payload example_api example_notification)
     = Returned
   \<and> effects_of (notify strict_builtin raw_payload raw_device (Some example_batch) example_api) =
     [NotifyFn 3 (Some ''NDI=''),
      Emit_NOTIFICATION ''dev1'' ''/3200/0/5500'' (Some ''NDI=''),
      Emit_REGISTRATION ''dev2'', Emit_REREGISTRATION ''dev3'',
      Emit_DEREGISTRATION ''dev4'', Emit_EXPIRED ''dev4'',
      AsyncFn 7 (Some \<lparr>message = Inl ''not found'', innerError = None, details = None, code = 404\<rparr>) None]
   \<and> sorted (map stage (effects_of (notify strict_builtin raw_payload raw_device (Some example_batch) example_api)))
   \<and> filter (\<lambda>e. stage e = 3) (effects_of (notify strict_builtin raw_payload raw_device (Some example_batch) example_api))
        = [Emit_DEREGISTRATION ''dev4'']
   \<and> stage (effects_of (notify strict_builtin raw_payload raw_device (Some example_batch) example_api) ! 4)
        < stage (effects_of (notify strict_builtin raw_payload raw_device (Some example_batch) example_api) ! 5)"
  using notify_fixed_processing_order [of strict_builtin raw_payload raw_device example_batch example_api]
  by (simp add: notify_defs example_defs)

text \<open>
  Claim C9. \<open>normalizePath\<close> strips one leading \<open>/\<close> and leaves any other path as it is.
  \<open>addResourceSubscription(d, p, f)\<close> stores \<open>f\<close> under the key \<open>d + "/" + normalizePath(p)\<close>
  and under no other (its model ends before the end only when the async id \<open>__proto__\<close> is
  registered); \<open>notify\<close> looks a callback up under the device id followed directly by the
  path.  When \<open>f\<close> was registered nowhere before, a resource notification calls \<open>f\<close> exactly
  when its device id followed by its path is that key: it does for the device \<open>d\<close> and the
  path \<open>"/" + normalizePath(p)\<close>, it does not for the device \<open>d\<close> and the path
  \<open>normalizePath(p)\<close>.  In a batch, \<open>f\<close> is called only if some resource notification has
  that key, and is called if one has and no resource notification throws.
\<close>

theorem subscription_key_mismatch:
  "(\<forall>s. p = CHR ''/'' # s \<longrightarrow> normalizePath p = s)
   \<and> ((\<forall>s. p \<noteq> CHR ''/'' # s) \<longrightarrow> normalizePath p = p)
   \<and> (addResourceSubscription d p (Some f) done asyncID this = None
        \<longleftrightarrow> handleNotifications this \<and> asyncID = Some ''__proto__'')
   \<and> (addResourceSubscription d p (Some f) done asyncID this = Some (this', out) \<longrightarrow>
        notifyFns this' = (notifyFns this)(d @ ''/'' @ normalizePath p \<mapsto> f))
   \<and> (addResourceSubscription d p (Some f) done asyncID this = Some (this', out)
        \<and> (\<forall>k. notifyFns this k \<noteq> Some f) \<longrightarrow>
          (list_ex (is_NotifyFn_of f) (fst (notify_notification builtin decodeBase64 this' n))
             \<longleftrightarrow> ep n @ path n = d @ ''/'' @ normalizePath p)
        \<and> (ep n = d \<and> path n = ''/'' @ normalizePath p \<longrightarrow>
             list_ex (is_NotifyFn_of f) (fst (notify_notification builtin decodeBase64 this' n)))
        \<and> (ep n = d \<and> path n = normalizePath p \<longrightarrow>
             \<not> list_ex (is_NotifyFn_of f) (fst (notify_notification builtin decodeBase64 this' n)))
        \<and> (list_ex (is_NotifyFn_of f)
               (effects_of (notify builtin decodeBase64 mapDevice (Some data) this')) \<longrightarrow>
             (\<exists>m \<in> set (present (notifications data)).
                ep m @ path m = d @ ''/'' @ normalizePath p))
        \<and> ((\<forall>m \<in> set (present (notifications data)).
                snd (notify_notification builtin decodeBase64 this' m) = Returned)
            \<and> (\<exists>m \<in> set (present (notifications data)).
                ep m @ path m = d @ ''/'' @ normalizePath p) \<longrightarrow>
             list_ex (is_NotifyFn_of f)
               (effects_of (notify builtin decodeBase64 mapDevice (Some data) this'))))"
proof (intro conjI)
  show "\<forall>s. p = CHR ''/'' # s \<longrightarrow> normalizePath p = s"
    by (simp add: normalizePath_slash)
  show "(\<forall>s. p \<noteq> CHR ''/'' # s) \<longrightarrow> normalizePath p = p"
    using normalizePath_no_slash [of p] by blast
  show "addResourceSubscription d p (Some f) done asyncID this = None
        \<longleftrightarrow> handleNotifications this \<and> asyncID = Some ''__proto__''"
    by (auto simp: addResourceSubscription_def js_set_def key_not_proto_Cons Let_def
          split: option.splits if_splits)
  show "addResourceSubscription d p (Some f) done asyncID this = Some (this', out) \<longrightarrow>
        notifyFns this' = (notifyFns this)(d @ ''/'' @ normalizePath p \<mapsto> f)"
    using notifyFns_addResourceSubscription [of d p f "done" asyncID this this' out] by blast
  show "addResourceSubscription d p (Some f) done asyncID this = Some (this', out)
        \<and> (\<forall>k. notifyFns this k \<noteq> Some f) \<longrightarrow>
          (list_ex (is_NotifyFn_of f) (fst (notify_notification builtin decodeBase64 this' n))
             \<longleftrightarrow> ep n @ path n = d @ ''/'' @ normalizePath p)
        \<and> (ep n = d \<and> path n = ''/'' @ normalizePath p \<longrightarrow>
             list_ex (is_NotifyFn_of f) (fst (notify_notification builtin decodeBase64 this' n)))
        \<and> (ep n = d \<and> path n = normalizePath p \<longrightarrow>
             \<not> list_ex (is_NotifyFn_of f) (fst (notify_notification builtin decodeBase64 this' n)))
        \<and> (list_ex (is_NotifyFn_of f)
               (effects_of (notify builtin decodeBase64 mapDevice (Some data) this')) \<longrightarrow>
             (\<exists>m \<in> set (present (notifications data)).
                ep m @ path m = d @ ''/'' @ normalizePath p))
        \<and> ((\<forall>m \<in> set (present (notifications data)).
                snd (notify_notification builtin decodeBase64 this' m) = Returned)
            \<and> (\<exists>m \<in> set (present (notifications data)).
                ep m @ path m = d @ ''/'' @ normalizePath p) \<longrightarrow>
             list_ex (is_NotifyFn_of f)
               (effects_of (notify builtin decodeBase64 mapDevice (Some data) this')))"
  proof
    assume a: "addResourceSubscription d p (Some f) done asyncID this = Some (this', out)
        \<and> (\<forall>k. notifyFns this k \<noteq> Some f)"
    let ?K = "d @ ''/'' @ normalizePath p"
    from a have stored: "notifyFns this' = (notifyFns this)(?K \<mapsto> f)"
      using notifyFns_addResourceSubscription [of d p f "done" asyncID this this' out] by blast
    from a have fresh: "\<And>k. notifyFns this k \<noteq> Some f" by blast
    have key: "\<And>k. notifyFns this' k = Some f \<longleftrightarrow> k = ?K"
      unfolding stored using fresh by simp
    have one: "list_ex (is_NotifyFn_of f) (fst (notify_notification builtin decodeBase64 this' n))
             \<longleftrightarrow> ep n @ path n = ?K"
      unfolding list_ex_notify_notification by (rule key)
    have yes: "ep n = d \<and> path n = ''/'' @ normalizePath p \<longrightarrow>
             list_ex (is_NotifyFn_of f) (fst (notify_notification builtin decodeBase64 this' n))"
      unfolding one by simp
    have no: "ep n = d \<and> path n = normalizePath p \<longrightarrow>
             \<not> list_ex (is_NotifyFn_of f) (fst (notify_notification builtin decodeBase64 this' n))"
      unfolding one by simp
    have only_if: "list_ex (is_NotifyFn_of f)
               (effects_of (notify builtin decodeBase64 mapDevice (Some data) this')) \<longrightarrow>
             (\<exists>m \<in> set (present (notifications data)). ep m @ path m = ?K)"
    proof
      assume "list_ex (is_NotifyFn_of f)
               (effects_of (notify builtin decodeBase64 mapDevice (Some data) this'))"
      from list_ex_notify_imp [OF this]
      obtain m where "m \<in> set (present (notifications data))"
        "notifyFns this' (ep m @ path m) = Some f" by blast
      then show "\<exists>m \<in> set (present (notifications data)). ep m @ path m = ?K"
        unfolding key by blast
    qed
    have "if": "(\<forall>m \<in> set (present (notifications data)).
                snd (notify_notification builtin decodeBase64 this' m) = Returned)
            \<and> (\<exists>m \<in> set (present (notifications data)). ep m @ path m = ?K) \<longrightarrow>
             list_ex (is_NotifyFn_of f)
               (effects_of (notify builtin decodeBase64 mapDevice (Some data) this'))"
    proof
      assume b: "(\<forall>m \<in> set (present (notifications data)).
                snd (notify_notification builtin decodeBase64 this' m) = Returned)
            \<and> (\<exists>m \<in> set (present (notifications data)). ep m @ path m = ?K)"
      then have all: "\<And>m. m \<in> set (present (notifications data)) \<Longrightarrow>
                snd (notify_notification builtin decodeBase64 this' m) = Returned"
        by blast
      from b obtain m where m: "m \<in> set (present (notifications data))" "ep m @ path m = ?K"
        by blast
      from m(2) have "notifyFns this' (ep m @ path m) = Some f"
        unfolding key .
      with all m(1) show "list_ex (is_NotifyFn_of f)
               (effects_of (notify builtin decodeBase64 mapDevice (Some data) this'))"
        by (rule list_ex_notify_all_Returned)
    qed
    from one yes no only_if "if"
    show "(list_ex (is_NotifyFn_of f) (fst (notify_notification builtin decodeBase64 this' n))
             \<longleftrightarrow> ep n @ path n = d @ ''/'' @ normalizePath p)
        \<and> (ep n = d \<and> path n = ''/'' @ normalizePath p \<longrightarrow>
             list_ex (is_NotifyFn_of f) (fst (notify_notification builtin decodeBase64 this' n)))
        \<and> (ep n = d \<and> path n = normalizePath p \<longrightarrow>
             \<not> list_ex (is_NotifyFn_of f) (fst (notify_notification builtin decodeBase64 this' n)))
        \<and> (list_ex (is_NotifyFn_of f)
               (effects_of (notify builtin decodeBase64 mapDevice (Some data) this')) \<longrightarrow>
             (\<exists>m \<in> set (present (notifications data)).
                ep m @ path m = d @ ''/'' @ normalizePath p))
        \<and> ((\<forall>m \<in> set (present (notifications data)).
                snd (notify_notification builtin decodeBase64 this' m) = Returned)
            \<and> (\<exists>m \<in> set (present (notifications data)).
                ep m @ path m = d @ ''/'' @ normalizePath p) \<longrightarrow>
             list_ex (is_NotifyFn_of f)
               (effects_of (notify builtin decodeBase64 mapDevice (Some data) this')))"
      by (intro conjI)
  qed
qed

theorem subscription_key_mismatch_witness:
  "normalizePath ''/3200/0/5500'' = ''3200/0/5500''
   \<and> addResourceSubscription ''dev1'' ''/3200/0/5500'' (Some 3) 9 None new_ConnectApi
       = Some (subscribed_api, Some (Inr None))
   \<and> notifyFns new_ConnectApi = Map.empty
   \<and> list_ex (is_NotifyFn_of 3)
       (fst (notify_notification strict_builtin raw_payload subscribed_api example_notification))
   \<and> \<not> list_ex (is_NotifyFn_of 3)
       (fst (notify_notification strict_builtin raw_payload subscribed_api slashless_notification))
   \<and> list_ex (is_NotifyFn_of 3)
       (effects_of (notify strict_builtin raw_payload raw_device (Some example_batch) subscribed_api))"
proof -
  have strips: "normalizePath ''/3200/0/5500'' = ''3200/0/5500''"
    using subscription_key_mismatch
      [of "''/3200/0/5500''" "''dev1''" 3 9 None new_ConnectApi subscribed_api "Some (Inr None)"
          strict_builtin raw_payload example_notification raw_device example_batch]
    by blast
  have stored: "addResourceSubscription ''dev1'' ''/3200/0/5500'' (Some 3) 9 None new_ConnectApi
       = Some (subscribed_api, Some (Inr None))"
    by (simp add: addResourceSubscription_def js_set_def normalizePath_def example_defs)
  have fresh: "\<forall>k. notifyFns new_ConnectApi k \<noteq> Some 3"
    by (simp add: new_ConnectApi_def)
  have slash: "ep example_notification = ''dev1''
      \<and> path example_notification = ''/'' @ normalizePath ''/3200/0/5500''"
    by (simp add: example_notification_def normalizePath_def)
  have slashless: "ep slashless_notification = ''dev1''
      \<and> path slashless_notification = normalizePath ''/3200/0/5500''"
    by (simp add: slashless_notification_def normalizePath_def)
  have returns: "\<forall>m \<in> set (present (notifications example_batch)).
      snd (notify_notification strict_builtin raw_payload subscribed_api m) = Returned"
    by (simp add: notify_defs example_defs)
  have has: "\<exists>m \<in> set (present (notifications example_batch)).
      ep m @ path m = ''dev1'' @ ''/'' @ normalizePath ''/3200/0/5500''"
    by (simp add: present_def normalizePath_def example_defs)
  from subscription_key_mismatch
      [of "''/3200/0/5500''" "''dev1''" 3 9 None new_ConnectApi subscribed_api "Some (Inr None)"
          strict_builtin raw_payload example_notification raw_device example_batch]
    stored fresh slash returns has
  have called: "list_ex (is_NotifyFn_of 3)
       (fst (notify_notification strict_builtin raw_payload subscribed_api example_notification))"
    and batch: "list_ex (is_NotifyFn_of 3)
       (effects_of (notify strict_builtin raw_payload raw_device (Some example_batch) subscribed_api))"
    by blast+
  from subscription_key_mismatch
      [of "''/3200/0/5500''" "''dev1''" 3 9 None new_ConnectApi subscribed_api "Some (Inr None)"
          strict_builtin raw_payload slashless_notification raw_device example_batch]
    stored fresh slashless
  have not_called: "\<not> list_ex (is_NotifyFn_of 3)
       (fst (notify_notification strict_builtin raw_payload subscribed_api slashless_notification))"
    by blast
  have none: "notifyFns new_ConnectApi = Map.empty"
    by (simp add: new_ConnectApi_def)
  from strips stored none called not_called batch show ?thesis by blast
qed

text \<open>
  Claim C10. Calling \<open>notify\<close> with a null or undefined batch does nothing: it returns, no
  effect is produced and the object (both dictionaries and every other field) is as it
  was.
\<close>

theorem notify_null_noop:
  "notify builtin decodeBase64 mapDevice None this = (this, [], Returned)"
  by (simp add: notify_def)


end
